theory Spec2Isabelle
  imports Main
begin

section \<open>The EPrints OAI-PMH adaptor (run.py)\<close>

text \<open>
  A shallow embedding of \<^verbatim>\<open>run.py\<close>. Every function of the module is a HOL function
  of the same name (without the leading underscore). The module talks to the outside
  through the clients of the \<^verbatim>\<open>app\<close> package, the \<^verbatim>\<open>json\<close> module and
  \<^verbatim>\<open>os.remove\<close>; none of them is part of the module, so their behaviour is a parameter
  (the record \<open>env\<close> below), and every theorem holds for all behaviours. What the module
  does to the outside is kept in a \<open>world\<close>: the two tables of the durable store, the
  module globals that \<^verbatim>\<open>_shutdown\<close> reads, and the chronological list of the calls and
  log lines made so far.
\<close>

subsection \<open>Python values\<close>

type_synonym timestamp = int

text \<open>Exceptions: the class and the text \<^verbatim>\<open>str(e)\<close> gives. All classes here derive
  from \<^verbatim>\<open>Exception\<close>; \<^verbatim>\<open>SystemExit\<close>, which does not, is a separate outcome of
  \<open>main\<close>.\<close>

datatype exc_class =
    FileNotFoundError | PermissionError | IsADirectoryError | OSError
  | TypeError | ValueError | KeyError | JSONDecodeError | OtherError

datatype exc = Exc (exc_class: exc_class) (exc_text: string)

text \<open>A record as \<^verbatim>\<open>EPrintsClient.fetch_records_from\<close> yields it: a header with the
  two keys \<^verbatim>\<open>identifier\<close> and \<^verbatim>\<open>datestamp\<close>, and the metadata, a dict from field
  names to lists of strings.\<close>

record eprints_record =
  header_identifier :: string
  header_datestamp :: timestamp
  metadata :: "string \<rightharpoonup> string list"

text \<open>What \<^verbatim>\<open>json.loads\<close> returns. A dict keeps its insertion order, so it is an
  association list; a float is kept as its literal.\<close>

datatype json =
    JNull | JBool bool | JInt int | JFloat string | JStr string
  | JArr "json list" | JObj "(string \<times> json) list"

text \<open>What is put on the primary channel: a message text, or the \<^verbatim>\<open>PoisonPill\<close>.\<close>

datatype queue_item = Message string | PoisonPill

datatype client =
    Download_client | Dynamodb_client | Eprints_client | Kinesis_client
  | Message_generator | Message_validator | S3_client

subsection \<open>The world\<close>

datatype event =
    Call_download_file string
  | Call_push_to_bucket string string
  | Call_os_remove string
  | Call_put_message_on_queue queue_item
  | Call_put_invalid_message_on_queue "string option"
  | Call_update_processed_record string string string string
  | Call_update_high_watermark timestamp
  | Call_validator_shutdown
  | Log_processing_record string
  | Log_processing string
  | Log_processed_status "string option" string
  | Log_skipping string
  | Log_record_error string
  | Warn_remove string
  | Warn_download string
  | Warn_decorate "string option" string string
  | Log_missing_settings "string list"
  | Log_shutting_down
  | Log_unhandled

record processed_row =
  row_message :: string
  row_status :: string
  row_reason :: string

record world =
  high_watermark :: "timestamp option"
  processed :: "string \<rightharpoonup> processed_row"
  initialised :: "client list"
  trace :: "event list"

definition emit :: "event \<Rightarrow> world \<Rightarrow> world" where
  "emit ev w = w\<lparr>trace := trace w @ [ev]\<rparr>"

subsection \<open>The collaborators\<close>

text \<open>The behaviour of everything outside the module. A call that can fail answers with
  the exception it raises; each answer may depend on the whole history (the world at the
  moment of the call).\<close>

record env =
  client_init :: "client \<Rightarrow> exc option"
  py_int :: "string \<Rightarrow> exc + int"
  now :: timestamp
  fetch_records_from :: "world \<Rightarrow> timestamp \<Rightarrow> eprints_record list"
  download_file :: "world \<Rightarrow> string \<Rightarrow> exc + string option"
  push_to_bucket :: "world \<Rightarrow> string \<Rightarrow> string \<Rightarrow> exc + string"
  os_remove :: "world \<Rightarrow> string \<Rightarrow> exc option"
  generate_metadata_create :: "eprints_record \<Rightarrow> string list \<Rightarrow> exc + string"
  json_loads :: "string \<Rightarrow> exc + json"
  json_dumps :: "json \<Rightarrow> string"
  validate_message :: "string \<Rightarrow> exc option"
  queue_put :: "world \<Rightarrow> queue_item \<Rightarrow> exc option"
  queue_put_invalid :: "world \<Rightarrow> string option \<Rightarrow> exc option"
  store_put_processed :: "world \<Rightarrow> string \<Rightarrow> exc option"
  store_put_watermark :: "world \<Rightarrow> timestamp \<Rightarrow> exc option"
  validator_shutdown :: "world \<Rightarrow> exc option"

subsection \<open>The durable state store\<close>

text \<open>Modelled from the spec: \<^verbatim>\<open>DynamoDBClient\<close> (the \<^verbatim>\<open>app\<close> package is not among the
  sources). Section 4.5 of the specification: single-key reads and writes of a singleton
  watermark and of one outcome per record identifier; a read answers the stored value or
  nothing. Section 7: a write may fail, and then propagates.\<close>

definition fetch_high_watermark :: "world \<Rightarrow> timestamp option" where
  "fetch_high_watermark w = high_watermark w"

definition fetch_processed_status :: "world \<Rightarrow> string \<Rightarrow> string option" where
  "fetch_processed_status w ident = map_option row_status (processed w ident)"

definition update_high_watermark :: "env \<Rightarrow> timestamp \<Rightarrow> world \<Rightarrow> exc option \<times> world" where
  "update_high_watermark env ts w =
     (let w1 = emit (Call_update_high_watermark ts) w in
      case store_put_watermark env w ts of
        Some e \<Rightarrow> (Some e, w1)
      | None \<Rightarrow> (None, w1\<lparr>high_watermark := Some ts\<rparr>))"

definition update_processed_record ::
  "env \<Rightarrow> string \<Rightarrow> string \<Rightarrow> string \<Rightarrow> string \<Rightarrow> world \<Rightarrow> exc option \<times> world" where
  "update_processed_record env ident message status reason w =
     (let w1 = emit (Call_update_processed_record ident message status reason) w in
      case store_put_processed env w ident of
        Some e \<Rightarrow> (Some e, w1)
      | None \<Rightarrow>
          (None, w1\<lparr>processed := (processed w1)(ident \<mapsto>
             \<lparr>row_message = message, row_status = status, row_reason = reason\<rparr>)\<rparr>))"

subsection \<open>The record filter\<close>

definition record_success_filter :: "world \<Rightarrow> eprints_record \<Rightarrow> bool \<times> world" where
  "record_success_filter w record =
     (let eprints_identifier = header_identifier record;
          status = fetch_processed_status w eprints_identifier;
          w1 = emit (Log_processed_status status eprints_identifier) w
      in if status = Some ''Success''
         then (False, emit (Log_skipping eprints_identifier) w1)
         else (True, w1))"


subsection \<open>Relocating the files of a record\<close>

definition startswith :: "string \<Rightarrow> string \<Rightarrow> bool" where
  "startswith s p = (take (length p) s = p)"

text \<open>The body of the loop of \<^verbatim>\<open>_push_files_to_s3\<close> (lines 185 to 200) for one
  metadata identifier. Only \<^verbatim>\<open>FileNotFoundError\<close> is caught around \<^verbatim>\<open>os.remove\<close>.\<close>

definition push_file_to_s3 ::
  "env \<Rightarrow> string \<Rightarrow> string list \<Rightarrow> world \<Rightarrow> (exc + string list) \<times> world" where
  "push_file_to_s3 env ident file_locations w =
     (if startswith ident ''http://'' \<or> startswith ident ''https://'' then
        (let w1 = emit (Call_download_file ident) w in
         case download_file env w ident of
           Inl e \<Rightarrow> (Inl e, w1)
         | Inr None \<Rightarrow> (Inr file_locations, emit (Warn_download ident) w1)
         | Inr (Some file_path) \<Rightarrow>
             (let w2 = emit (Call_push_to_bucket ident file_path) w1 in
              case push_to_bucket env w1 ident file_path of
                Inl e \<Rightarrow> (Inl e, w2)
              | Inr location \<Rightarrow>
                  (let w3 = emit (Call_os_remove file_path) w2 in
                   case os_remove env w2 file_path of
                     None \<Rightarrow> (Inr (file_locations @ [location]), w3)
                   | Some e \<Rightarrow>
                       if exc_class e = FileNotFoundError
                       then (Inr (file_locations @ [location]), emit (Warn_remove file_path) w3)
                       else (Inl e, w3))))
      else (Inr file_locations, w))"

fun push_files_loop ::
  "env \<Rightarrow> string list \<Rightarrow> string list \<Rightarrow> world \<Rightarrow> (exc + string list) \<times> world" where
  "push_files_loop env [] file_locations w = (Inr file_locations, w)"
| "push_files_loop env (ident # identifiers) file_locations w =
     (case push_file_to_s3 env ident file_locations w of
        (Inl e, w1) \<Rightarrow> (Inl e, w1)
      | (Inr file_locations1, w1) \<Rightarrow> push_files_loop env identifiers file_locations1 w1)"

definition push_files_to_s3 ::
  "env \<Rightarrow> eprints_record \<Rightarrow> world \<Rightarrow> (exc + string list) \<times> world" where
  "push_files_to_s3 env record w =
     (case metadata record ''identifier'' of
        None \<Rightarrow> (Inl (Exc KeyError (CHR 0x27 # ''identifier'' @ [CHR 0x27])), w)
      | Some identifiers \<Rightarrow> push_files_loop env identifiers [] w)"

subsection \<open>Decorating a message with an error\<close>

fun contains_str :: "string \<Rightarrow> string \<Rightarrow> bool" where
  "contains_str [] sub = (sub = [])"
| "contains_str (c # cs) sub = (startswith (c # cs) sub \<or> contains_str cs sub)"

text \<open>\<^verbatim>\<open>key in value\<close>, \<^verbatim>\<open>value[key] = item\<close> and \<^verbatim>\<open>value[key]\<close> for a string key, on
  what \<^verbatim>\<open>json.loads\<close> can return. Only a dict takes a string key; the texts of the
  exceptions are CPython's.\<close>

definition py_contains :: "string \<Rightarrow> json \<Rightarrow> exc + bool" where
  "py_contains key v =
     (case v of
        JObj items \<Rightarrow> Inr (map_of items key \<noteq> None)
      | JArr xs \<Rightarrow> Inr (JStr key \<in> set xs)
      | JStr s \<Rightarrow> Inr (contains_str s key)
      | _ \<Rightarrow> Inl (Exc TypeError ''argument is not iterable''))"

fun dict_setitem :: "string \<Rightarrow> json \<Rightarrow> (string \<times> json) list \<Rightarrow> (string \<times> json) list" where
  "dict_setitem key item [] = [(key, item)]"
| "dict_setitem key item ((k, v) # items) =
     (if k = key then (k, item) # items else (k, v) # dict_setitem key item items)"

definition py_setitem :: "json \<Rightarrow> string \<Rightarrow> json \<Rightarrow> exc + json" where
  "py_setitem v key item =
     (case v of
        JObj items \<Rightarrow> Inr (JObj (dict_setitem key item items))
      | JArr xs \<Rightarrow> Inl (Exc TypeError ''list indices must be integers or slices, not str'')
      | _ \<Rightarrow> Inl (Exc TypeError ''object does not support item assignment''))"

definition py_getitem :: "json \<Rightarrow> string \<Rightarrow> exc + json" where
  "py_getitem v key =
     (case v of
        JObj items \<Rightarrow>
          (case map_of items key of
             None \<Rightarrow> Inl (Exc KeyError (CHR 0x27 # key @ [CHR 0x27]))
           | Some item \<Rightarrow> Inr item)
      | JArr xs \<Rightarrow> Inl (Exc TypeError ''list indices must be integers or slices, not str'')
      | JStr s \<Rightarrow> Inl (Exc TypeError ''string indices must be integers'')
      | _ \<Rightarrow> Inl (Exc TypeError ''object is not subscriptable''))"

text \<open>\<^verbatim>\<open>message[k1][k2] = item\<close>: the inner object is changed in place, so the outer
  one holds the changed inner object afterwards.\<close>

definition py_setitem2 :: "json \<Rightarrow> string \<Rightarrow> string \<Rightarrow> json \<Rightarrow> exc + json" where
  "py_setitem2 v k1 k2 item =
     (case py_getitem v k1 of
        Inl e \<Rightarrow> Inl e
      | Inr inner \<Rightarrow>
          (case py_setitem inner k2 item of
             Inl e \<Rightarrow> Inl e
           | Inr inner1 \<Rightarrow> py_setitem v k1 inner1))"

text \<open>\<^verbatim>\<open>json.loads(message, strict=False)\<close> where the message may be \<^verbatim>\<open>None\<close>.\<close>

definition loads :: "env \<Rightarrow> string option \<Rightarrow> exc + json" where
  "loads env message =
     (case message of
        None \<Rightarrow> Inl (Exc TypeError ''the JSON object must be str, bytes or bytearray, not NoneType'')
      | Some s \<Rightarrow> json_loads env s)"

text \<open>Lines 217 to 223: the parsed message with the error header set.\<close>

definition set_error_header :: "env \<Rightarrow> json \<Rightarrow> string \<Rightarrow> string \<Rightarrow> exc + json" where
  "set_error_header env message error_code error_message =
     (case py_contains ''messageHeader'' message of
        Inl e \<Rightarrow> Inl e
      | Inr present \<Rightarrow>
          (case (if \<not> present then py_setitem message ''messageHeader'' (JObj [])
                 else Inr message) of
             Inl e \<Rightarrow> Inl e
           | Inr m1 \<Rightarrow>
               (case py_setitem2 m1 ''messageHeader'' ''errorCode'' (JStr error_code) of
                  Inl e \<Rightarrow> Inl e
                | Inr m2 \<Rightarrow>
                    py_setitem2 m2 ''messageHeader'' ''errorMessage''
                      (JStr (json_dumps env (JStr error_message))))))"

definition decorate_message_with_error ::
  "env \<Rightarrow> string option \<Rightarrow> string \<Rightarrow> string \<Rightarrow> world \<Rightarrow> (exc + string option) \<times> world" where
  "decorate_message_with_error env message error_code error_message w =
     (case loads env message of
        Inl e \<Rightarrow> (Inr message, emit (Warn_decorate message error_code error_message) w)
      | Inr parsed \<Rightarrow>
          (case set_error_header env parsed error_code error_message of
             Inl e \<Rightarrow> (Inl e, w)
           | Inr decorated \<Rightarrow> (Inr (Some (json_dumps env decorated)), w)))"


subsection \<open>The output queue\<close>

definition put_message_on_queue :: "env \<Rightarrow> queue_item \<Rightarrow> world \<Rightarrow> exc option \<times> world" where
  "put_message_on_queue env item w = (queue_put env w item, emit (Call_put_message_on_queue item) w)"

definition put_invalid_message_on_queue ::
  "env \<Rightarrow> string option \<Rightarrow> world \<Rightarrow> exc option \<times> world" where
  "put_invalid_message_on_queue env message w =
     (queue_put_invalid env w message, emit (Call_put_invalid_message_on_queue message) w)"

subsection \<open>Processing one record\<close>

text \<open>Where the \<^verbatim>\<open>try\<close> block of \<^verbatim>\<open>_process_record\<close> stops: the values of the variables
  \<^verbatim>\<open>message\<close> and \<^verbatim>\<open>err_code\<close> at that moment, and the exception.\<close>

record failure =
  failed_message :: "string option"
  failed_err_code :: "string option"
  failed_exc :: exc

text \<open>Line 142: \<^verbatim>\<open>json.dumps(json.loads(message, strict=False))\<close>.\<close>

definition reserialise :: "env \<Rightarrow> string \<Rightarrow> exc + string" where
  "reserialise env message =
     (case json_loads env message of
        Inl e \<Rightarrow> Inl e
      | Inr parsed \<Rightarrow> Inr (json_dumps env parsed))"

text \<open>The \<^verbatim>\<open>try\<close> block, lines 133 to 155.\<close>

definition process_gates ::
  "env \<Rightarrow> eprints_record \<Rightarrow> world \<Rightarrow> (failure + string) \<times> world" where
  "process_gates env record w =
     (case push_files_to_s3 env record w of
        (Inl e, w1) \<Rightarrow>
          (Inl \<lparr>failed_message = None, failed_err_code = None, failed_exc = e\<rparr>, w1)
      | (Inr s3_objects, w1) \<Rightarrow>
          (case generate_metadata_create env record s3_objects of
             Inl e \<Rightarrow>
               (Inl \<lparr>failed_message = None, failed_err_code = None, failed_exc = e\<rparr>, w1)
           | Inr generated \<Rightarrow>
               (case reserialise env generated of
                  Inl e \<Rightarrow>
                    (Inl \<lparr>failed_message = Some generated,
                          failed_err_code = Some ''GENERR007'', failed_exc = e\<rparr>, w1)
                | Inr message \<Rightarrow>
                    (case validate_message env message of
                       Some e \<Rightarrow>
                         (Inl \<lparr>failed_message = Some message,
                               failed_err_code = Some ''GENERR001'', failed_exc = e\<rparr>, w1)
                     | None \<Rightarrow>
                         (case put_message_on_queue env (Message message) w1 of
                            (Some e, w2) \<Rightarrow>
                              (Inl \<lparr>failed_message = Some message,
                                    failed_err_code = None, failed_exc = e\<rparr>, w2)
                          | (None, w2) \<Rightarrow> (Inr message, w2))))))"

text \<open>Lines 159 and 160.\<close>

definition error_code_of :: "failure \<Rightarrow> string" where
  "error_code_of f = (case failed_err_code f of None \<Rightarrow> ''GENERR009'' | Some c \<Rightarrow> c)"

text \<open>The \<^verbatim>\<open>except\<close> block, lines 157 to 163. It answers the values of \<^verbatim>\<open>message\<close>,
  \<^verbatim>\<open>status\<close> and \<^verbatim>\<open>reason\<close> it leaves, or the exception that escapes it.\<close>

definition handle_failure ::
  "env \<Rightarrow> eprints_record \<Rightarrow> failure \<Rightarrow> world \<Rightarrow>
     (exc + string option \<times> string \<times> string) \<times> world" where
  "handle_failure env record f w =
     (let w1 = emit (Log_record_error (header_identifier record)) w;
          err_code = error_code_of f;
          reason = exc_text (failed_exc f)
      in case decorate_message_with_error env (failed_message f) err_code reason w1 of
           (Inl e, w2) \<Rightarrow> (Inl e, w2)
         | (Inr message, w2) \<Rightarrow>
             (case put_invalid_message_on_queue env message w2 of
                (Some e, w3) \<Rightarrow> (Inl e, w3)
              | (None, w3) \<Rightarrow> (Inr (message, ''Failure'', reason), w3)))"

text \<open>Line 168: \<^verbatim>\<open>message if message is not None and len(message) > 0 else '-'\<close>.\<close>

definition message_or_placeholder :: "string option \<Rightarrow> string" where
  "message_or_placeholder message =
     (case message of
        None \<Rightarrow> ''-''
      | Some m \<Rightarrow> if length m > 0 then m else ''-'')"

text \<open>Lines 165 to 174.\<close>

definition record_outcome ::
  "env \<Rightarrow> eprints_record \<Rightarrow> string option \<Rightarrow> string \<Rightarrow> string \<Rightarrow> world \<Rightarrow> exc option \<times> world" where
  "record_outcome env record message status reason w =
     (case update_processed_record env (header_identifier record)
             (message_or_placeholder message) status reason w of
        (Some e, w1) \<Rightarrow> (Some e, w1)
      | (None, w1) \<Rightarrow> update_high_watermark env (header_datestamp record) w1)"

definition process_record :: "env \<Rightarrow> eprints_record \<Rightarrow> world \<Rightarrow> exc option \<times> world" where
  "process_record env record w =
     (let w0 = emit (Log_processing (header_identifier record)) w in
      case process_gates env record w0 of
        (Inr message, w1) \<Rightarrow> record_outcome env record (Some message) ''Success'' ''-'' w1
      | (Inl f, w1) \<Rightarrow>
          (case handle_failure env record f w1 of
             (Inl e, w2) \<Rightarrow> (Some e, w2)
           | (Inr (message, status, reason), w2) \<Rightarrow>
               record_outcome env record message status reason w2))"

subsection \<open>Settings, shutdown and the main function\<close>

definition setting_names :: "string list" where
  "setting_names =
     [''EPRINTS_JISC_ID'', ''EPRINTS_ORGANISATION_NAME'', ''EPRINTS_EPRINTS_URL'',
      ''EPRINTS_DYNAMODB_WATERMARK_TABLE_NAME'', ''EPRINTS_DYNAMODB_PROCESSED_TABLE_NAME'',
      ''EPRINTS_S3_BUCKET_NAME'', ''EPRINTS_OUTPUT_KINESIS_STREAM_NAME'',
      ''EPRINTS_OUTPUT_KINESIS_INVALID_STREAM_NAME'', ''EPRINTS_API_SPECIFICATION_VERSION'',
      ''EPRINTS_FLOW_LIMIT'']"

text \<open>A value of \<^verbatim>\<open>os.environ.get\<close> is true when it is a string that is not empty.\<close>

definition is_set :: "string option \<Rightarrow> bool" where
  "is_set v = (case v of None \<Rightarrow> False | Some s \<Rightarrow> s \<noteq> [])"

text \<open>\<^verbatim>\<open>sys.exit(1)\<close> is the left answer.\<close>

definition parse_env_vars ::
  "(string \<rightharpoonup> string) \<Rightarrow> string list \<Rightarrow> world \<Rightarrow> (nat + (string \<times> string option) list) \<times> world" where
  "parse_env_vars os_environ env_var_names w =
     (let env_vars = map (\<lambda>name. (name, os_environ name)) env_var_names in
      if \<not> list_all is_set (map snd env_vars)
      then (Inl 1, emit (Log_missing_settings
              (map fst (filter (\<lambda>(name, exists). \<not> is_set exists) env_vars))) w)
      else (Inr env_vars, w))"

definition get_settings ::
  "(string \<rightharpoonup> string) \<Rightarrow> world \<Rightarrow> (nat + (string \<times> string option) list) \<times> world" where
  "get_settings os_environ w = parse_env_vars os_environ setting_names w"

definition shutdown :: "env \<Rightarrow> world \<Rightarrow> exc option \<times> world" where
  "shutdown env w =
     (let w0 = emit Log_shutting_down w in
      case (if Kinesis_client \<in> set (initialised w0)
            then put_message_on_queue env PoisonPill w0 else (None, w0)) of
        (Some e, w1) \<Rightarrow> (Some e, w1)
      | (None, w1) \<Rightarrow>
          if Message_validator \<in> set (initialised w1)
          then (validator_shutdown env w1, emit Call_validator_shutdown w1)
          else (None, w1))"

text \<open>Lines 38 to 51: the clients are made one after the other, and each global is
  set once its client is made.\<close>

fun initialise_clients :: "env \<Rightarrow> client list \<Rightarrow> world \<Rightarrow> exc option \<times> world" where
  "initialise_clients env [] w = (None, w)"
| "initialise_clients env (c # cs) w =
     (case client_init env c of
        Some e \<Rightarrow> (Some e, w)
      | None \<Rightarrow> initialise_clients env cs (w\<lparr>initialised := initialised w @ [c]\<rparr>))"

definition client_order :: "client list" where
  "client_order =
     [Download_client, Dynamodb_client, Eprints_client, Kinesis_client,
      Message_generator, Message_validator, S3_client]"

definition sys_maxsize :: int where
  "sys_maxsize = 2 ^ 63 - 1"

text \<open>The loop of \<^verbatim>\<open>main\<close> over \<^verbatim>\<open>itertools.islice(filter(_record_success_filter,
  records), flow_limit)\<close>. Both iterators are lazy: a record is filtered when the loop asks
  for the next one, after the records before it have been processed, and once
  \<^verbatim>\<open>flow_limit\<close> records have been yielded no further record is looked at.\<close>

fun process_records :: "env \<Rightarrow> eprints_record list \<Rightarrow> nat \<Rightarrow> world \<Rightarrow> exc option \<times> world" where
  "process_records env records 0 w = (None, w)"
| "process_records env [] (Suc n) w = (None, w)"
| "process_records env (record # records) (Suc n) w =
     (case record_success_filter w record of
        (False, w1) \<Rightarrow> process_records env records (Suc n) w1
      | (True, w1) \<Rightarrow>
          (case process_record env record
                  (emit (Log_processing_record (header_identifier record)) w1) of
             (Some e, w2) \<Rightarrow> (Some e, w2)
           | (None, w2) \<Rightarrow> process_records env records n w2))"

text \<open>How a run of \<^verbatim>\<open>main\<close> ends: it returns, an exception escapes it, or
  \<^verbatim>\<open>sys.exit\<close> ends the process.\<close>

datatype ending = Returned | Raised exc | Exited nat

text \<open>Lines 53 to 72, after the settings are read and the clients are made.\<close>

definition harvest ::
  "env \<Rightarrow> (string \<times> string option) list \<Rightarrow> world \<Rightarrow> exc option \<times> world" where
  "harvest env settings w =
     (case (case fetch_high_watermark w of
              None \<Rightarrow> (case update_high_watermark env (now env) w of
                         (Some e, w1) \<Rightarrow> (Inl e, w1)
                       | (None, w1) \<Rightarrow> (Inr (now env), w1))
            | Some ts \<Rightarrow> (Inr ts, w)) of
        (Inl e, w1) \<Rightarrow> (Some e, w1)
      | (Inr start_timestamp, w1) \<Rightarrow>
          (case map_of settings ''EPRINTS_FLOW_LIMIT'' of
             None \<Rightarrow> (Some (Exc KeyError (CHR 0x27 # ''EPRINTS_FLOW_LIMIT'' @ [CHR 0x27])), w1)
           | Some None \<Rightarrow>
               (Some (Exc TypeError ''int() argument must be a string or a number''), w1)
           | Some (Some text) \<Rightarrow>
               (case py_int env text of
                  Inl e \<Rightarrow> (Some e, w1)
                | Inr flow_limit \<Rightarrow>
                    (let records = fetch_records_from env w1 start_timestamp in
                     if flow_limit < 0 \<or> sys_maxsize < flow_limit
                     then (Some (Exc ValueError
                             ''Stop argument for islice() must be None or an integer''), w1)
                     else
                       (case process_records env records (nat flow_limit) w1 of
                          (Some e, w2) \<Rightarrow> (Some e, w2)
                        | (None, w2) \<Rightarrow> shutdown env w2)))))"

definition main :: "env \<Rightarrow> (string \<rightharpoonup> string) \<Rightarrow> world \<Rightarrow> ending \<times> world" where
  "main env os_environ w =
     (case get_settings os_environ w of
        (Inl code, w1) \<Rightarrow> (Exited code, w1)
      | (Inr settings, w1) \<Rightarrow>
          (case initialise_clients env client_order w1 of
             (Some e, w2) \<Rightarrow> (Raised e, w2)
           | (None, w2) \<Rightarrow>
               (case harvest env settings w2 of
                  (Some e, w3) \<Rightarrow> (Raised e, w3)
                | (None, w3) \<Rightarrow> (Returned, w3))))"

text \<open>The block under \<^verbatim>\<open>if __name__ == '__main__'\<close>: \<^verbatim>\<open>except Exception\<close> does not
  catch \<^verbatim>\<open>SystemExit\<close>.\<close>

definition run :: "env \<Rightarrow> (string \<rightharpoonup> string) \<Rightarrow> world \<Rightarrow> ending \<times> world" where
  "run env os_environ w =
     (case main env os_environ w of
        (Raised e, w1) \<Rightarrow>
          (case shutdown env (emit Log_unhandled w1) of
             (Some e1, w2) \<Rightarrow> (Raised e1, w2)
           | (None, w2) \<Rightarrow> (Returned, w2))
      | (Returned, w1) \<Rightarrow> (Returned, w1)
      | (Exited code, w1) \<Rightarrow> (Exited code, w1))"

text \<open>The world when the interpreter has loaded the module: every global is
  \<^verbatim>\<open>None\<close>, nothing has been called or logged, and the durable store holds what earlier
  runs left.\<close>

definition start_world :: "timestamp option \<Rightarrow> (string \<rightharpoonup> processed_row) \<Rightarrow> world" where
  "start_world watermark table =
     \<lparr>high_watermark = watermark, processed = table, initialised = [], trace = []\<rparr>"


subsection \<open>Reading the trace\<close>

fun is_outcome_write :: "event \<Rightarrow> bool" where
  "is_outcome_write (Call_update_processed_record ident message status reason) = True"
| "is_outcome_write ev = False"

fun is_watermark_write :: "event \<Rightarrow> bool" where
  "is_watermark_write (Call_update_high_watermark ts) = True"
| "is_watermark_write ev = False"

definition store_writes :: "world \<Rightarrow> event list" where
  "store_writes w = filter (\<lambda>ev. is_outcome_write ev \<or> is_watermark_write ev) (trace w)"

fun is_processing :: "event \<Rightarrow> bool" where
  "is_processing (Log_processing ident) = True"
| "is_processing ev = False"

text \<open>Every call of \<^verbatim>\<open>_process_record\<close> starts with one log line (line 131), so the number
  of these lines is the number of records handed to it.\<close>

definition records_processed :: "world \<Rightarrow> nat" where
  "records_processed w = length (filter is_processing (trace w))"

fun is_shutdown :: "event \<Rightarrow> bool" where
  "is_shutdown Log_shutting_down = True"
| "is_shutdown ev = False"

text \<open>Every call of \<^verbatim>\<open>_shutdown\<close> starts with one log line (line 256).\<close>

definition shutdowns :: "world \<Rightarrow> nat" where
  "shutdowns w = length (filter is_shutdown (trace w))"

fun download_of :: "event \<Rightarrow> string option" where
  "download_of (Call_download_file url) = Some url"
| "download_of ev = None"

definition downloads :: "world \<Rightarrow> string list" where
  "downloads w = List.map_filter download_of (trace w)"

definition is_file_url :: "string \<Rightarrow> bool" where
  "is_file_url v = (startswith v ''http://'' \<or> startswith v ''https://'')"

text \<open>The events of the \<^verbatim>\<open>try\<close> and \<^verbatim>\<open>except\<close> blocks of \<^verbatim>\<open>_process_record\<close>.\<close>

fun gate_event :: "event \<Rightarrow> bool" where
  "gate_event (Call_download_file url) = True"
| "gate_event (Call_push_to_bucket url path) = True"
| "gate_event (Call_os_remove path) = True"
| "gate_event (Call_put_message_on_queue item) = True"
| "gate_event (Call_put_invalid_message_on_queue message) = True"
| "gate_event (Log_record_error ident) = True"
| "gate_event (Warn_remove path) = True"
| "gate_event (Warn_download url) = True"
| "gate_event (Warn_decorate message code reason) = True"
| "gate_event ev = False"

text \<open>\<open>extends A w w'\<close>: from \<open>w\<close> to \<open>w'\<close> only events of the class \<open>A\<close> were added to the
  trace, and nothing else changed.\<close>

definition appends :: "(event \<Rightarrow> bool) \<Rightarrow> world \<Rightarrow> world \<Rightarrow> bool" where
  "appends A w w' = (\<exists>evs. trace w' = trace w @ evs \<and> list_all A evs)"

definition extends :: "(event \<Rightarrow> bool) \<Rightarrow> world \<Rightarrow> world \<Rightarrow> bool" where
  "extends A w w' =
     (appends A w w' \<and> high_watermark w' = high_watermark w \<and> processed w' = processed w \<and>
      initialised w' = initialised w)"

text \<open>The configured flow limit: the integer \<^verbatim>\<open>int\<close> reads from the setting, if any.\<close>

definition configured_flow_limit :: "env \<Rightarrow> (string \<rightharpoonup> string) \<Rightarrow> int option" where
  "configured_flow_limit env os_environ =
     (case os_environ ''EPRINTS_FLOW_LIMIT'' of
        None \<Rightarrow> None
      | Some text \<Rightarrow> (case py_int env text of Inl e \<Rightarrow> None | Inr n \<Rightarrow> Some n))"

subsection \<open>A concrete record and concrete collaborators\<close>

definition sample_record :: eprints_record where
  "sample_record =
     \<lparr>header_identifier = ''hdl:1765/1163'', header_datestamp = 1076940655,
      metadata = [''identifier'' \<mapsto>
        [''https://eprints.test/1163/1/paper.pdf'', ''Pau, L-F (2004) Mobile operators'']]\<rparr>"

text \<open>A string of printable ASCII characters as \<^verbatim>\<open>json.dumps\<close> writes it: between
  double quotes, with a backslash before every double quote and backslash.\<close>

definition escaped :: "char \<Rightarrow> string" where
  "escaped c = (if c = CHR 0x22 \<or> c = CHR 0x5C then [CHR 0x5C, c] else [c])"

definition quoted :: "string \<Rightarrow> string" where
  "quoted s = CHR 0x22 # concat (map escaped s) @ [CHR 0x22]"

text \<open>\<^verbatim>\<open>json.loads\<close> and \<^verbatim>\<open>json.dumps\<close> on the few values the examples use: the empty
  object, the empty array, a string, and an object that holds only a message header with
  the two error fields.\<close>

definition sample_loads :: "string \<Rightarrow> exc + json" where
  "sample_loads s =
     (if s = ''{}'' then Inr (JObj [])
      else if s = ''[]'' then Inr (JArr [])
      else Inl (Exc JSONDecodeError ''Expecting value: line 1 column 1 (char 0)''))"

definition sample_dumps :: "json \<Rightarrow> string" where
  "sample_dumps v =
     (case v of
        JStr s \<Rightarrow> quoted s
      | JArr [] \<Rightarrow> ''[]''
      | JObj [] \<Rightarrow> ''{}''
      | JObj [(h, JObj [(c, JStr code), (m, JStr reason)])] \<Rightarrow>
          ''{'' @ quoted h @ '': {'' @ quoted c @ '': '' @ quoted code @ '', '' @
          quoted m @ '': '' @ quoted reason @ ''}}''
      | _ \<Rightarrow> ''null'')"

definition sample_int :: "string \<Rightarrow> exc + int" where
  "sample_int s =
     (if s = ''0'' then Inr 0 else if s = ''1'' then Inr 1 else if s = ''2'' then Inr 2
      else if s = ''-1'' then Inr (- 1)
      else Inl (Exc ValueError ''invalid literal for int() with base 10''))"

text \<open>Collaborators that all succeed: every download gives a local file, every upload a
  reference, the generator writes the empty object and the validator accepts it.\<close>

definition sample_env :: env where
  "sample_env =
     \<lparr>client_init = (\<lambda>c. None),
      py_int = sample_int,
      now = 1600000000,
      fetch_records_from = (\<lambda>w ts. [sample_record]),
      download_file = (\<lambda>w url. Inr (Some ''/tmp/paper.pdf'')),
      push_to_bucket = (\<lambda>w url path. Inr (''s3://bucket/'' @ url)),
      os_remove = (\<lambda>w path. None),
      generate_metadata_create = (\<lambda>record s3_objects. Inr ''{}''),
      json_loads = sample_loads,
      json_dumps = sample_dumps,
      validate_message = (\<lambda>message. None),
      queue_put = (\<lambda>w item. None),
      queue_put_invalid = (\<lambda>w message. None),
      store_put_processed = (\<lambda>w ident. None),
      store_put_watermark = (\<lambda>w ts. None),
      validator_shutdown = (\<lambda>w. None)\<rparr>"

definition sample_environ :: "string \<rightharpoonup> string" where
  "sample_environ =
     map_of
       [(''EPRINTS_JISC_ID'', ''1234''), (''EPRINTS_ORGANISATION_NAME'', ''Test University''),
        (''EPRINTS_EPRINTS_URL'', ''http://eprints.test/cgi/oai2''),
        (''EPRINTS_DYNAMODB_WATERMARK_TABLE_NAME'', ''watermark''),
        (''EPRINTS_DYNAMODB_PROCESSED_TABLE_NAME'', ''processed''),
        (''EPRINTS_S3_BUCKET_NAME'', ''bucket''),
        (''EPRINTS_OUTPUT_KINESIS_STREAM_NAME'', ''output''),
        (''EPRINTS_OUTPUT_KINESIS_INVALID_STREAM_NAME'', ''invalid''),
        (''EPRINTS_API_SPECIFICATION_VERSION'', ''3.0.1''),
        (''EPRINTS_FLOW_LIMIT'', ''2'')]"

definition success_row :: processed_row where
  "success_row = \<lparr>row_message = ''{}'', row_status = ''Success'', row_reason = ''-''\<rparr>"

definition failure_row :: processed_row where
  "failure_row = \<lparr>row_message = ''-'', row_status = ''Failure'', row_reason = ''boom''\<rparr>"


text \<open>Variants in which one collaborator fails.\<close>

definition rejecting_env :: env where
  "rejecting_env = sample_env\<lparr>validate_message := (\<lambda>message. Some (Exc ValueError ''boom''))\<rparr>"

definition unreachable_env :: env where
  "unreachable_env =
     rejecting_env\<lparr>queue_put_invalid := (\<lambda>w message. Some (Exc OtherError ''stream down''))\<rparr>"

definition generator_failing_env :: env where
  "generator_failing_env =
     sample_env\<lparr>generate_metadata_create :=
       (\<lambda>record s3_objects. Inl (Exc KeyError ''title''))\<rparr>"

definition malformed_env :: env where
  "malformed_env =
     sample_env\<lparr>generate_metadata_create := (\<lambda>record s3_objects. Inr ''{bad'')\<rparr>"

definition publish_failing_env :: env where
  "publish_failing_env =
     sample_env\<lparr>queue_put := (\<lambda>w item. Some (Exc OtherError ''stream down''))\<rparr>"

definition download_failing_env :: env where
  "download_failing_env = sample_env\<lparr>download_file := (\<lambda>w url. Inr None)\<rparr>"

definition upload_failing_env :: env where
  "upload_failing_env =
     sample_env\<lparr>push_to_bucket := (\<lambda>w url path. Inl (Exc OtherError ''access denied''))\<rparr>"

definition already_gone_env :: env where
  "already_gone_env =
     sample_env\<lparr>os_remove := (\<lambda>w path. Some (Exc FileNotFoundError ''No such file''))\<rparr>"

definition undeletable_env :: env where
  "undeletable_env =
     sample_env\<lparr>os_remove := (\<lambda>w path. Some (Exc PermissionError ''Permission denied''))\<rparr>"

definition validator_stuck_env :: env where
  "validator_stuck_env =
     sample_env\<lparr>validator_shutdown := (\<lambda>w. Some (Exc OtherError ''gateway closed''))\<rparr>"

fun is_invalid_put :: "event \<Rightarrow> bool" where
  "is_invalid_put (Call_put_invalid_message_on_queue message) = True"
| "is_invalid_put ev = False"

text \<open>The events that start neither the processing of a record nor a shutdown.\<close>

definition quiet :: "event \<Rightarrow> bool" where
  "quiet ev = (\<not> is_processing ev \<and> \<not> is_shutdown ev)"

text \<open>A second record, a source that yields both records, and other settings.\<close>

definition second_record :: eprints_record where
  "second_record =
     \<lparr>header_identifier = ''hdl:1765/1164'', header_datestamp = 1076940700,
      metadata = [''identifier'' \<mapsto> [''Pau, L-F (2004) Network-based business'']]\<rparr>"

definition two_records_env :: env where
  "two_records_env =
     sample_env\<lparr>fetch_records_from := (\<lambda>w ts. [sample_record, second_record])\<rparr>"

definition limit_one_environ :: "string \<rightharpoonup> string" where
  "limit_one_environ = sample_environ(''EPRINTS_FLOW_LIMIT'' \<mapsto> ''1'')"

definition negative_environ :: "string \<rightharpoonup> string" where
  "negative_environ = sample_environ(''EPRINTS_FLOW_LIMIT'' \<mapsto> ''-1'')"

definition no_kinesis_env :: env where
  "no_kinesis_env =
     sample_env\<lparr>client_init :=
       (\<lambda>c. if c = Kinesis_client then Some (Exc OtherError ''no credentials'') else None)\<rparr>"

section \<open>Traces and frames\<close>


lemma trace_emit [simp]: "trace (emit ev w) = trace w @ [ev]"
  and high_watermark_emit [simp]: "high_watermark (emit ev w) = high_watermark w"
  and processed_emit [simp]: "processed (emit ev w) = processed w"
  and initialised_emit [simp]: "initialised (emit ev w) = initialised w"
  by (simp_all add: emit_def)

lemma appends_refl [simp]: "appends A w w"
  by (simp add: appends_def)

lemma appends_trans: "appends A w w1 \<Longrightarrow> appends A w1 w2 \<Longrightarrow> appends A w w2"
  by (auto simp: appends_def)

lemma appends_emit: "A ev \<Longrightarrow> appends A w w1 \<Longrightarrow> appends A w (emit ev w1)"
  by (auto simp: appends_def)

lemma appends_mono: "appends A w w1 \<Longrightarrow> (\<And>ev. A ev \<Longrightarrow> B ev) \<Longrightarrow> appends B w w1"
  by (auto simp: appends_def list_all_iff)

lemma appends_filter:
  "appends A w w1 \<Longrightarrow> (\<And>ev. A ev \<Longrightarrow> \<not> P ev) \<Longrightarrow> filter P (trace w1) = filter P (trace w)"
  by (auto simp: appends_def list_all_iff)

lemma extends_refl [simp]: "extends A w w"
  by (simp add: extends_def)

lemma extends_trans: "extends A w w1 \<Longrightarrow> extends A w1 w2 \<Longrightarrow> extends A w w2"
  by (auto simp: extends_def intro: appends_trans)

lemma extends_emit: "A ev \<Longrightarrow> extends A w w1 \<Longrightarrow> extends A w (emit ev w1)"
  by (auto simp: extends_def intro: appends_emit)

lemma extends_appends: "extends A w w1 \<Longrightarrow> appends A w w1"
  by (simp add: extends_def)

lemma push_file_to_s3_extends: "extends gate_event w (snd (push_file_to_s3 env ident fl w))"
  by (auto simp: push_file_to_s3_def Let_def intro!: extends_emit split: sum.splits option.splits)

lemma push_files_loop_extends: "extends gate_event w (snd (push_files_loop env ids fl w))"
proof (induction ids arbitrary: fl w)
  case Nil
  show ?case by simp
next
  case (Cons ident ids)
  obtain r w1 where step: "push_file_to_s3 env ident fl w = (r, w1)"
    by (cases "push_file_to_s3 env ident fl w")
  have first: "extends gate_event w w1"
    using push_file_to_s3_extends [of w env ident fl] step by simp
  show ?case
  proof (cases r)
    case (Inl e)
    with step first show ?thesis by simp
  next
    case (Inr fl1)
    with step have "snd (push_files_loop env (ident # ids) fl w) = snd (push_files_loop env ids fl1 w1)"
      by simp
    with first Cons.IH [of w1 fl1] show ?thesis
      by (auto intro: extends_trans)
  qed
qed

lemma push_files_to_s3_extends: "extends gate_event w (snd (push_files_to_s3 env record w))"
  by (simp add: push_files_to_s3_def push_files_loop_extends split: option.splits)

lemma decorate_extends:
  "extends gate_event w (snd (decorate_message_with_error env message code reason w))"
  by (auto simp: decorate_message_with_error_def intro!: extends_emit split: sum.splits)

lemma put_message_extends: "extends gate_event w (snd (put_message_on_queue env item w))"
  by (simp add: put_message_on_queue_def extends_emit)

lemma put_invalid_extends:
  "extends gate_event w (snd (put_invalid_message_on_queue env message w))"
  by (simp add: put_invalid_message_on_queue_def extends_emit)

lemma process_gates_extends: "extends gate_event w (snd (process_gates env record w))"
proof -
  obtain r w1 where push: "push_files_to_s3 env record w = (r, w1)"
    by (cases "push_files_to_s3 env record w")
  have first: "extends gate_event w w1"
    using push_files_to_s3_extends [of w env "record"] push by simp
  have put: "extends gate_event w w2" if "put_message_on_queue env item w1 = (x, w2)" for item x w2
    using first put_message_extends [of w1 env item] that by (auto intro: extends_trans)
  show ?thesis
    using push first
    by (auto simp: process_gates_def split: sum.splits option.splits prod.splits intro: put)
qed

lemma handle_failure_extends: "extends gate_event w (snd (handle_failure env record f w))"
proof -
  let ?w1 = "emit (Log_record_error (header_identifier record)) w"
  obtain r w2 where dec: "decorate_message_with_error env (failed_message f) (error_code_of f)
      (exc_text (failed_exc f)) ?w1 = (r, w2)"
    by (cases "decorate_message_with_error env (failed_message f) (error_code_of f)
      (exc_text (failed_exc f)) ?w1")
  have "extends gate_event ?w1 w2"
    using decorate_extends [of ?w1 env "failed_message f" "error_code_of f" "exc_text (failed_exc f)"] dec
    by simp
  then have first: "extends gate_event w w2"
    using extends_emit [of gate_event "Log_record_error (header_identifier record)" w w]
    by (auto intro: extends_trans)
  have put: "extends gate_event w w3" if "put_invalid_message_on_queue env m w2 = (x, w3)" for m x w3
    using first put_invalid_extends [of w2 env m] that by (auto intro: extends_trans)
  show ?thesis
    using dec first
    by (auto simp: handle_failure_def Let_def split: sum.splits option.splits prod.splits intro: put)
qed


lemmas model_defs =
  process_record_def process_gates_def handle_failure_def record_outcome_def
  push_files_to_s3_def push_file_to_s3_def startswith_def
  decorate_message_with_error_def loads_def set_error_header_def
  py_contains_def py_setitem_def py_getitem_def py_setitem2_def
  put_message_on_queue_def put_invalid_message_on_queue_def reserialise_def
  error_code_of_def message_or_placeholder_def
  update_processed_record_def update_high_watermark_def
  fetch_processed_status_def fetch_high_watermark_def record_success_filter_def
  shutdown_def harvest_def main_def run_def get_settings_def parse_env_vars_def
  setting_names_def is_set_def client_order_def sys_maxsize_def emit_def Let_def

lemmas sample_defs =
  sample_env_def sample_record_def sample_loads_def sample_dumps_def sample_int_def
  sample_environ_def start_world_def quoted_def escaped_def
  rejecting_env_def unreachable_env_def generator_failing_env_def malformed_env_def
  publish_failing_env_def download_failing_env_def upload_failing_env_def
  already_gone_env_def undeletable_env_def validator_stuck_env_def
  second_record_def two_records_env_def limit_one_environ_def negative_environ_def
  no_kinesis_env_def






lemma handle_failure_status:
  "handle_failure env record f w = (Inr (message, status, reason), w1) \<Longrightarrow>
     status = ''Failure'' \<and> reason = exc_text (failed_exc f)"
  by (auto simp: handle_failure_def Let_def split: sum.splits option.splits prod.splits)

section \<open>The record filter\<close>

text \<open>
  C1. For every record and every state of the store, \<^verbatim>\<open>_record_success_filter\<close> answers
  \<^verbatim>\<open>False\<close> exactly when the store holds an outcome for the identifier of the record
  whose status is \<^verbatim>\<open>Success\<close>. It answers \<^verbatim>\<open>True\<close> when the store holds no outcome for the
  identifier, and when the stored status is \<^verbatim>\<open>Failure\<close>, so a failed record is tried again
  on the next pass. The filter only reads the store.
\<close>

theorem record_success_filter_skips_only_success:
  "(fst (record_success_filter w record) = False) =
     (\<exists>row. processed w (header_identifier record) = Some row \<and> row_status row = ''Success'')
   \<and> (processed w (header_identifier record) = None \<longrightarrow>
        fst (record_success_filter w record) = True)
   \<and> (\<forall>row. processed w (header_identifier record) = Some row \<and> row_status row = ''Failure''
        \<longrightarrow> fst (record_success_filter w record) = True)
   \<and> processed (snd (record_success_filter w record)) = processed w
   \<and> high_watermark (snd (record_success_filter w record)) = high_watermark w"
  by (auto simp: record_success_filter_def fetch_processed_status_def emit_def Let_def)

theorem record_success_filter_skips_only_success_witness:
  "fst (record_success_filter (start_world None Map.empty) sample_record) = True
   \<and> fst (record_success_filter
          (start_world None [''hdl:1765/1163'' \<mapsto> failure_row]) sample_record) = True
   \<and> fst (record_success_filter
          (start_world None [''hdl:1765/1163'' \<mapsto> success_row]) sample_record) = False"
  using record_success_filter_skips_only_success
          [of "start_world None Map.empty" sample_record]
        record_success_filter_skips_only_success
          [of "start_world None [''hdl:1765/1163'' \<mapsto> failure_row]" sample_record]
        record_success_filter_skips_only_success
          [of "start_world None [''hdl:1765/1163'' \<mapsto> success_row]" sample_record]
  by (simp add: start_world_def sample_record_def failure_row_def success_row_def)

section \<open>The outcome and the watermark\<close>

text \<open>The three ways through \<^verbatim>\<open>_process_record\<close>.\<close>

lemma process_record_cases:
  obtains
    (published) message w1 where
      "process_gates env record (emit (Log_processing (header_identifier record)) w) =
         (Inr message, w1)"
      "process_record env record w = record_outcome env record (Some message) ''Success'' ''-'' w1"
      "extends gate_event (emit (Log_processing (header_identifier record)) w) w1"
  | (escaped) f w1 e w2 where
      "process_gates env record (emit (Log_processing (header_identifier record)) w) =
         (Inl f, w1)"
      "handle_failure env record f w1 = (Inl e, w2)"
      "process_record env record w = (Some e, w2)"
      "extends gate_event (emit (Log_processing (header_identifier record)) w) w2"
  | (failed) f w1 message w2 where
      "process_gates env record (emit (Log_processing (header_identifier record)) w) =
         (Inl f, w1)"
      "handle_failure env record f w1 = (Inr (message, ''Failure'', exc_text (failed_exc f)), w2)"
      "process_record env record w =
         record_outcome env record message ''Failure'' (exc_text (failed_exc f)) w2"
      "extends gate_event (emit (Log_processing (header_identifier record)) w) w2"
proof -
  let ?w0 = "emit (Log_processing (header_identifier record)) w"
  obtain r w1 where gates: "process_gates env record ?w0 = (r, w1)"
    by (cases "process_gates env record ?w0")
  have ext1: "extends gate_event ?w0 w1"
    using process_gates_extends [of ?w0 env "record"] gates by simp
  show thesis
  proof (cases r)
    case (Inr message)
    with gates ext1 published show thesis
      by (simp add: process_record_def Let_def)
  next
    case (Inl f)
    obtain h w2 where handler: "handle_failure env record f w1 = (h, w2)"
      by (cases "handle_failure env record f w1")
    have ext2: "extends gate_event ?w0 w2"
      using ext1 handle_failure_extends [of w1 env "record" f] handler
      by (auto intro: extends_trans)
    show thesis
    proof (cases h)
      case (Inl e)
      with gates \<open>r = Inl f\<close> handler ext2 escaped show thesis
        by (simp add: process_record_def Let_def)
    next
      case (Inr res)
      obtain message status reason where res: "res = (message, status, reason)"
        by (cases res)
      with handler Inr have "status = ''Failure'' \<and> reason = exc_text (failed_exc f)"
        using handle_failure_status by blast
      with gates \<open>r = Inl f\<close> handler Inr res ext2 failed show thesis
        by (simp add: process_record_def Let_def)
    qed
  qed
qed






section \<open>The error codes\<close>


lemma decorate_absent:
  "decorate_message_with_error env None code reason w =
     (Inr None, emit (Warn_decorate None code reason) w)"
  by (simp add: decorate_message_with_error_def loads_def)

lemma process_gates_relocation_fails:
  "push_files_to_s3 env record w = (Inl e, w1) \<Longrightarrow>
     process_gates env record w =
       (Inl \<lparr>failed_message = None, failed_err_code = None, failed_exc = e\<rparr>, w1)"
  by (simp add: process_gates_def)

lemma process_gates_generation_fails:
  "push_files_to_s3 env record w = (Inr objs, w1) \<Longrightarrow>
   generate_metadata_create env record objs = Inl e \<Longrightarrow>
     process_gates env record w =
       (Inl \<lparr>failed_message = None, failed_err_code = None, failed_exc = e\<rparr>, w1)"
  by (simp add: process_gates_def)

lemma process_gates_reserialise_fails:
  "push_files_to_s3 env record w = (Inr objs, w1) \<Longrightarrow>
   generate_metadata_create env record objs = Inr g \<Longrightarrow>
   reserialise env g = Inl e \<Longrightarrow>
     process_gates env record w =
       (Inl \<lparr>failed_message = Some g, failed_err_code = Some ''GENERR007'', failed_exc = e\<rparr>, w1)"
  by (simp add: process_gates_def)

lemma process_gates_validation_fails:
  "push_files_to_s3 env record w = (Inr objs, w1) \<Longrightarrow>
   generate_metadata_create env record objs = Inr g \<Longrightarrow>
   reserialise env g = Inr m \<Longrightarrow>
   validate_message env m = Some e \<Longrightarrow>
     process_gates env record w =
       (Inl \<lparr>failed_message = Some m, failed_err_code = Some ''GENERR001'', failed_exc = e\<rparr>, w1)"
  by (simp add: process_gates_def)

lemma process_gates_publish_fails:
  "push_files_to_s3 env record w = (Inr objs, w1) \<Longrightarrow>
   generate_metadata_create env record objs = Inr g \<Longrightarrow>
   reserialise env g = Inr m \<Longrightarrow>
   validate_message env m = None \<Longrightarrow>
   queue_put env w1 (Message m) = Some e \<Longrightarrow>
     process_gates env record w =
       (Inl \<lparr>failed_message = Some m, failed_err_code = None, failed_exc = e\<rparr>,
        emit (Call_put_message_on_queue (Message m)) w1)"
  by (simp add: process_gates_def put_message_on_queue_def)

text \<open>
  C3. Each failure of the \<^verbatim>\<open>try\<close> block of \<^verbatim>\<open>_process_record\<close> gets its own error code.
  When the files were relocated and the message was generated, a failure of the step that
  parses and writes the message again (line 142) leaves the code \<^verbatim>\<open>GENERR007\<close>; when
  that step succeeded, a failure of the schema validation (line 149) leaves \<^verbatim>\<open>GENERR001\<close>;
  an exception that escapes the relocation of the files and a failure of the publication
  on the primary channel leave no code, which the \<^verbatim>\<open>except\<close> block turns into the
  catch-all \<^verbatim>\<open>GENERR009\<close>. No other code is ever determined, and the \<^verbatim>\<open>except\<close> block
  hands the determined code and the text of the exception to the decoration.
\<close>

theorem gate_failures_have_their_codes:
  "(\<forall>objs w1 g e.
      push_files_to_s3 env record w = (Inr objs, w1) \<and>
      generate_metadata_create env record objs = Inr g \<and> reserialise env g = Inl e \<longrightarrow>
      process_gates env record w =
        (Inl \<lparr>failed_message = Some g, failed_err_code = Some ''GENERR007'', failed_exc = e\<rparr>, w1)
      \<and> error_code_of
          \<lparr>failed_message = Some g, failed_err_code = Some ''GENERR007'', failed_exc = e\<rparr> =
          ''GENERR007'')
   \<and> (\<forall>objs w1 g m e.
      push_files_to_s3 env record w = (Inr objs, w1) \<and>
      generate_metadata_create env record objs = Inr g \<and> reserialise env g = Inr m \<and>
      validate_message env m = Some e \<longrightarrow>
      process_gates env record w =
        (Inl \<lparr>failed_message = Some m, failed_err_code = Some ''GENERR001'', failed_exc = e\<rparr>, w1)
      \<and> error_code_of
          \<lparr>failed_message = Some m, failed_err_code = Some ''GENERR001'', failed_exc = e\<rparr> =
          ''GENERR001'')
   \<and> (\<forall>w1 e.
      push_files_to_s3 env record w = (Inl e, w1) \<longrightarrow>
      process_gates env record w =
        (Inl \<lparr>failed_message = None, failed_err_code = None, failed_exc = e\<rparr>, w1)
      \<and> error_code_of \<lparr>failed_message = None, failed_err_code = None, failed_exc = e\<rparr> =
          ''GENERR009'')
   \<and> (\<forall>objs w1 g m e.
      push_files_to_s3 env record w = (Inr objs, w1) \<and>
      generate_metadata_create env record objs = Inr g \<and> reserialise env g = Inr m \<and>
      validate_message env m = None \<and> queue_put env w1 (Message m) = Some e \<longrightarrow>
      process_gates env record w =
        (Inl \<lparr>failed_message = Some m, failed_err_code = None, failed_exc = e\<rparr>,
         emit (Call_put_message_on_queue (Message m)) w1)
      \<and> error_code_of \<lparr>failed_message = Some m, failed_err_code = None, failed_exc = e\<rparr> =
          ''GENERR009'')
   \<and> (\<forall>f w1.
      process_gates env record w = (Inl f, w1) \<longrightarrow>
      error_code_of f = ''GENERR007'' \<or> error_code_of f = ''GENERR001'' \<or>
      error_code_of f = ''GENERR009'')
   \<and> (\<forall>f w1.
      handle_failure env record f w1 =
        (case decorate_message_with_error env (failed_message f) (error_code_of f)
                (exc_text (failed_exc f))
                (emit (Log_record_error (header_identifier record)) w1) of
           (Inl e, w2) \<Rightarrow> (Inl e, w2)
         | (Inr message, w2) \<Rightarrow>
             (case put_invalid_message_on_queue env message w2 of
                (Some e, w3) \<Rightarrow> (Inl e, w3)
              | (None, w3) \<Rightarrow> (Inr (message, ''Failure'', exc_text (failed_exc f)), w3))))"
proof (intro conjI allI impI)
  fix f w1
  assume "process_gates env record w = (Inl f, w1)"
  then show "error_code_of f = ''GENERR007'' \<or> error_code_of f = ''GENERR001'' \<or>
      error_code_of f = ''GENERR009''"
    by (auto simp: process_gates_def error_code_of_def
          split: prod.splits sum.splits option.splits)
qed (auto simp: process_gates_reserialise_fails process_gates_validation_fails
       process_gates_relocation_fails process_gates_publish_fails error_code_of_def
       handle_failure_def Let_def)

theorem gate_failures_have_their_codes_witness:
  "fst (process_gates malformed_env sample_record (start_world None Map.empty)) =
     Inl \<lparr>failed_message = Some ''{bad'', failed_err_code = Some ''GENERR007'',
          failed_exc = Exc JSONDecodeError ''Expecting value: line 1 column 1 (char 0)''\<rparr>
   \<and> fst (process_gates rejecting_env sample_record (start_world None Map.empty)) =
     Inl \<lparr>failed_message = Some ''{}'', failed_err_code = Some ''GENERR001'',
          failed_exc = Exc ValueError ''boom''\<rparr>
   \<and> fst (process_gates upload_failing_env sample_record (start_world None Map.empty)) =
     Inl \<lparr>failed_message = None, failed_err_code = None,
          failed_exc = Exc OtherError ''access denied''\<rparr>
   \<and> error_code_of \<lparr>failed_message = None, failed_err_code = None,
          failed_exc = Exc OtherError ''access denied''\<rparr> = ''GENERR009''
   \<and> fst (process_gates publish_failing_env sample_record (start_world None Map.empty)) =
     Inl \<lparr>failed_message = Some ''{}'', failed_err_code = None,
          failed_exc = Exc OtherError ''stream down''\<rparr>"
  using gate_failures_have_their_codes [of malformed_env sample_record "start_world None Map.empty"]
    gate_failures_have_their_codes [of rejecting_env sample_record "start_world None Map.empty"]
    gate_failures_have_their_codes [of upload_failing_env sample_record "start_world None Map.empty"]
    gate_failures_have_their_codes [of publish_failing_env sample_record "start_world None Map.empty"]
  by (simp add: model_defs sample_defs)

text \<open>
  C7 (amended). A failure of the generation step itself, the call of
  \<^verbatim>\<open>generate_metadata_create\<close>, leaves no error code, so it gets the catch-all
  \<^verbatim>\<open>GENERR009\<close>; no message exists then, the decoration gives the absent message back
  and the error channel receives it without any header. \<^verbatim>\<open>GENERR007\<close> is determined only
  when the generated text could not be parsed and written again.
\<close>

theorem generation_failure_is_catch_all:
  "(\<forall>objs w1 e.
      push_files_to_s3 env record w = (Inr objs, w1) \<and>
      generate_metadata_create env record objs = Inl e \<longrightarrow>
      process_gates env record w =
        (Inl \<lparr>failed_message = None, failed_err_code = None, failed_exc = e\<rparr>, w1)
      \<and> error_code_of \<lparr>failed_message = None, failed_err_code = None, failed_exc = e\<rparr> =
          ''GENERR009''
      \<and> fst (decorate_message_with_error env None ''GENERR009'' (exc_text e) w1) = Inr None)
   \<and> (\<forall>f w1.
      process_gates env record w = (Inl f, w1) \<and> error_code_of f = ''GENERR007'' \<longrightarrow>
      (\<exists>objs w0 g.
         push_files_to_s3 env record w = (Inr objs, w0) \<and>
         generate_metadata_create env record objs = Inr g \<and>
         failed_message f = Some g \<and> reserialise env g = Inl (failed_exc f)))"
proof (intro conjI allI impI)
  fix f w1
  assume "process_gates env record w = (Inl f, w1) \<and> error_code_of f = ''GENERR007''"
  then show "\<exists>objs w0 g.
         push_files_to_s3 env record w = (Inr objs, w0) \<and>
         generate_metadata_create env record objs = Inr g \<and>
         failed_message f = Some g \<and> reserialise env g = Inl (failed_exc f)"
    by (auto simp: process_gates_def error_code_of_def
          split: prod.splits sum.splits option.splits)
qed (auto simp: process_gates_generation_fails error_code_of_def decorate_absent)

theorem generation_failure_is_catch_all_witness:
  "fst (process_gates generator_failing_env sample_record (start_world None Map.empty)) =
     Inl \<lparr>failed_message = None, failed_err_code = None, failed_exc = Exc KeyError ''title''\<rparr>
   \<and> error_code_of \<lparr>failed_message = None, failed_err_code = None,
        failed_exc = Exc KeyError ''title''\<rparr> = ''GENERR009''"
  using generation_failure_is_catch_all
          [of generator_failing_env sample_record "start_world None Map.empty"]
  by (simp add: model_defs sample_defs)

text \<open>
  The claim C7 as stated fails: the generator raises, the code determined is
  \<^verbatim>\<open>GENERR009\<close>, not \<^verbatim>\<open>GENERR007\<close>, and the only thing put on the error channel is the
  absent message.
\<close>

theorem generation_failure_not_GENERR007:
  "fst (process_gates generator_failing_env sample_record (start_world None Map.empty)) =
     Inl \<lparr>failed_message = None, failed_err_code = None, failed_exc = Exc KeyError ''title''\<rparr>
   \<and> error_code_of \<lparr>failed_message = None, failed_err_code = None,
        failed_exc = Exc KeyError ''title''\<rparr> \<noteq> ''GENERR007''
   \<and> filter is_invalid_put
        (trace (snd (process_record generator_failing_env sample_record
           (start_world None Map.empty)))) =
       [Call_put_invalid_message_on_queue None]"
  by (simp add: model_defs sample_defs)

section \<open>The relocation of files\<close>

lemma downloads_emit:
  "downloads (emit ev w) = downloads w @ (case download_of ev of None \<Rightarrow> [] | Some u \<Rightarrow> [u])"
  by (cases "download_of ev") (simp_all add: downloads_def List.map_filter_def)

lemma push_file_skips_text:
  "\<not> is_file_url v \<Longrightarrow> push_file_to_s3 env v fl w = (Inr fl, w)"
  by (simp add: push_file_to_s3_def is_file_url_def)

lemma push_file_download_fails:
  "is_file_url v \<Longrightarrow> download_file env w v = Inr None \<Longrightarrow>
     push_file_to_s3 env v fl w =
       (Inr fl, emit (Warn_download v) (emit (Call_download_file v) w))"
  by (simp add: push_file_to_s3_def is_file_url_def Let_def)


lemma push_file_removes:
  "is_file_url v \<Longrightarrow> download_file env w v = Inr (Some path) \<Longrightarrow>
   push_to_bucket env (emit (Call_download_file v) w) v path = Inr location \<Longrightarrow>
     push_file_to_s3 env v fl w =
       (let w3 = emit (Call_os_remove path)
                   (emit (Call_push_to_bucket v path) (emit (Call_download_file v) w))
        in case os_remove env (emit (Call_push_to_bucket v path) (emit (Call_download_file v) w))
                  path of
             None \<Rightarrow> (Inr (fl @ [location]), w3)
           | Some e \<Rightarrow>
               if exc_class e = FileNotFoundError
               then (Inr (fl @ [location]), emit (Warn_remove path) w3)
               else (Inl e, w3))"
  by (simp add: push_file_to_s3_def is_file_url_def Let_def)

lemma push_file_downloads:
  "downloads (snd (push_file_to_s3 env v fl w)) = downloads w @ (if is_file_url v then [v] else [])"
  by (auto simp: push_file_to_s3_def is_file_url_def Let_def downloads_emit
        split: sum.splits option.splits)

lemma push_file_text_never_fails:
  "fst (push_file_to_s3 env v fl w) = Inl e \<Longrightarrow> is_file_url v"
  by (auto simp: push_file_to_s3_def is_file_url_def split: if_splits)

lemma push_files_loop_downloads_all:
  "fst (push_files_loop env ids fl w) = Inr fl1 \<Longrightarrow>
     downloads (snd (push_files_loop env ids fl w)) = downloads w @ filter is_file_url ids"
proof (induction ids arbitrary: fl w)
  case Nil
  then show ?case by simp
next
  case (Cons v ids)
  obtain r w1 where step: "push_file_to_s3 env v fl w = (r, w1)"
    by (cases "push_file_to_s3 env v fl w")
  have d: "downloads w1 = downloads w @ (if is_file_url v then [v] else [])"
    using push_file_downloads [of env v fl w] step by simp
  show ?case
  proof (cases r)
    case (Inl e)
    with step Cons.prems show ?thesis by simp
  next
    case (Inr fl2)
    with step Cons.prems have "fst (push_files_loop env ids fl2 w1) = Inr fl1"
      by simp
    from Cons.IH [OF this] step Inr d show ?thesis by simp
  qed
qed

lemma push_files_loop_downloads_some:
  "\<exists>n. downloads (snd (push_files_loop env ids fl w)) =
         downloads w @ take n (filter is_file_url ids)"
proof (induction ids arbitrary: fl w)
  case Nil
  then show ?case by simp
next
  case (Cons v ids)
  obtain r w1 where step: "push_file_to_s3 env v fl w = (r, w1)"
    by (cases "push_file_to_s3 env v fl w")
  have d: "downloads w1 = downloads w @ (if is_file_url v then [v] else [])"
    using push_file_downloads [of env v fl w] step by simp
  show ?case
  proof (cases r)
    case (Inl e)
    then have "is_file_url v"
      using push_file_text_never_fails [of env v fl w e] step by simp
    with step Inl d have "downloads (snd (push_files_loop env (v # ids) fl w)) =
        downloads w @ take 1 (filter is_file_url (v # ids))"
      by simp
    then show ?thesis by blast
  next
    case (Inr fl2)
    obtain n where n: "downloads (snd (push_files_loop env ids fl2 w1)) =
        downloads w1 @ take n (filter is_file_url ids)"
      using Cons.IH [of fl2 w1] by blast
    show ?thesis
    proof (cases "is_file_url v")
      case True
      with step Inr d n have "downloads (snd (push_files_loop env (v # ids) fl w)) =
          downloads w @ take (Suc n) (filter is_file_url (v # ids))"
        by simp
      then show ?thesis by blast
    next
      case False
      with step Inr d n have "downloads (snd (push_files_loop env (v # ids) fl w)) =
          downloads w @ take n (filter is_file_url (v # ids))"
        by simp
      then show ?thesis by blast
    qed
  qed
qed

lemma push_files_loop_all_downloads_fail:
  "(\<And>w v. download_file env w v = Inr None) \<Longrightarrow>
     fst (push_files_loop env ids fl w) = Inr fl"
proof (induction ids arbitrary: w)
  case Nil
  then show ?case by simp
next
  case (Cons v ids)
  have "fst (push_file_to_s3 env v fl w) = Inr fl"
    using Cons.prems [of w v] push_file_download_fails [of v env w fl]
      push_file_skips_text [of v env fl w]
    by (cases "is_file_url v") simp_all
  then obtain w1 where "push_file_to_s3 env v fl w = (Inr fl, w1)"
    by (cases "push_file_to_s3 env v fl w") simp
  then show ?case
    using Cons.IH [of w1] Cons.prems by simp
qed

text \<open>
  C6. Of the values under the metadata field \<^verbatim>\<open>identifier\<close>, only those that start with
  \<^verbatim>\<open>http://\<close> or \<^verbatim>\<open>https://\<close> are handed to \<^verbatim>\<open>download_file\<close>: a value that does not
  is skipped with no effect and no error, and the downloads attempted for a record are, in
  order, the URLs among its values (all of them when the relocation returns, the first few
  when an exception ends it). A download that gives no file logs a warning, leaves the
  list of references as it was, and the loop goes on. When every download fails and the
  rest of the gates succeed, the relocation returns the empty list and the record passes
  the gates.
\<close>

theorem only_file_urls_are_downloaded:
  "(\<forall>v fl w. \<not> is_file_url v \<longrightarrow> push_file_to_s3 env v fl w = (Inr fl, w))
   \<and> (\<forall>v fl w. is_file_url v \<and> download_file env w v = Inr None \<longrightarrow>
         push_file_to_s3 env v fl w =
           (Inr fl, emit (Warn_download v) (emit (Call_download_file v) w)))
   \<and> (\<forall>ids w. metadata record ''identifier'' = Some ids \<longrightarrow>
         (\<exists>n. downloads (snd (push_files_to_s3 env record w)) =
                downloads w @ take n (filter is_file_url ids)))
   \<and> (\<forall>ids w fl. metadata record ''identifier'' = Some ids \<and>
         fst (push_files_to_s3 env record w) = Inr fl \<longrightarrow>
         downloads (snd (push_files_to_s3 env record w)) = downloads w @ filter is_file_url ids)
   \<and> (\<forall>ids w g m.
         metadata record ''identifier'' = Some ids \<and>
         (\<forall>w1 v. download_file env w1 v = Inr None) \<and>
         generate_metadata_create env record [] = Inr g \<and> reserialise env g = Inr m \<and>
         validate_message env m = None \<and> (\<forall>w1. queue_put env w1 (Message m) = None) \<longrightarrow>
         fst (push_files_to_s3 env record w) = Inr [] \<and>
         fst (process_gates env record w) = Inr m)"
proof (intro conjI allI impI)
  fix ids w g m
  assume a: "metadata record ''identifier'' = Some ids \<and>
         (\<forall>w1 v. download_file env w1 v = Inr None) \<and>
         generate_metadata_create env record [] = Inr g \<and> reserialise env g = Inr m \<and>
         validate_message env m = None \<and> (\<forall>w1. queue_put env w1 (Message m) = None)"
  then have "fst (push_files_loop env ids [] w) = Inr []"
    using push_files_loop_all_downloads_fail [of env ids "[]" w] by blast
  with a show push: "fst (push_files_to_s3 env record w) = Inr []"
    by (simp add: push_files_to_s3_def)
  then obtain w1 where "push_files_to_s3 env record w = (Inr [], w1)"
    by (cases "push_files_to_s3 env record w") simp
  with a show "fst (process_gates env record w) = Inr m"
    by (simp add: process_gates_def put_message_on_queue_def)
qed (auto simp: push_file_skips_text push_file_download_fails push_files_to_s3_def
       push_files_loop_downloads_some push_files_loop_downloads_all)

theorem only_file_urls_are_downloaded_witness:
  "downloads (snd (push_files_to_s3 sample_env sample_record (start_world None Map.empty))) =
     [''https://eprints.test/1163/1/paper.pdf'']
   \<and> push_files_to_s3 download_failing_env sample_record (start_world None Map.empty) =
       (Inr [], emit (Warn_download ''https://eprints.test/1163/1/paper.pdf'')
                  (emit (Call_download_file ''https://eprints.test/1163/1/paper.pdf'')
                     (start_world None Map.empty)))
   \<and> fst (process_gates download_failing_env sample_record (start_world None Map.empty)) =
       Inr ''{}''"
  using only_file_urls_are_downloaded [of sample_env sample_record]
    only_file_urls_are_downloaded [of download_failing_env sample_record]
  by (simp add: model_defs sample_defs downloads_def List.map_filter_def)


text \<open>
  C8 (amended). After a file was downloaded and uploaded, a \<^verbatim>\<open>FileNotFoundError\<close> of
  \<^verbatim>\<open>os.remove\<close> is logged as a warning and swallowed: the reference is kept and the loop
  goes on. An error of any other class raised by \<^verbatim>\<open>os.remove\<close> is not caught: it ends the
  loop and escapes \<^verbatim>\<open>_push_files_to_s3\<close>.
\<close>

theorem only_missing_file_is_swallowed:
  "\<forall>v path location fl w e rest.
     is_file_url v \<and> download_file env w v = Inr (Some path) \<and>
     push_to_bucket env (emit (Call_download_file v) w) v path = Inr location \<and>
     os_remove env (emit (Call_push_to_bucket v path) (emit (Call_download_file v) w)) path =
       Some e \<longrightarrow>
     (exc_class e = FileNotFoundError \<longrightarrow>
        push_file_to_s3 env v fl w =
          (Inr (fl @ [location]),
           emit (Warn_remove path) (emit (Call_os_remove path)
             (emit (Call_push_to_bucket v path) (emit (Call_download_file v) w)))))
     \<and> (exc_class e \<noteq> FileNotFoundError \<longrightarrow>
        push_file_to_s3 env v fl w =
          (Inl e, emit (Call_os_remove path)
             (emit (Call_push_to_bucket v path) (emit (Call_download_file v) w)))
        \<and> fst (push_files_loop env (v # rest) fl w) = Inl e)"
  by (auto simp: push_file_removes Let_def)

theorem only_missing_file_is_swallowed_witness:
  "push_files_to_s3 already_gone_env sample_record (start_world None Map.empty) =
     (Inr [''s3://bucket/https://eprints.test/1163/1/paper.pdf''],
      emit (Warn_remove ''/tmp/paper.pdf'') (emit (Call_os_remove ''/tmp/paper.pdf'')
        (emit (Call_push_to_bucket ''https://eprints.test/1163/1/paper.pdf'' ''/tmp/paper.pdf'')
           (emit (Call_download_file ''https://eprints.test/1163/1/paper.pdf'')
              (start_world None Map.empty)))))"
  using only_missing_file_is_swallowed [of already_gone_env]
  by (simp add: model_defs sample_defs)

text \<open>
  The claim C8 as stated fails: \<^verbatim>\<open>os.remove\<close> raises a \<^verbatim>\<open>PermissionError\<close>, which
  escapes the relocation and makes the record fail.
\<close>

theorem permission_error_escapes_relocation:
  "fst (push_files_to_s3 undeletable_env sample_record (start_world None Map.empty)) =
     Inl (Exc PermissionError ''Permission denied'')
   \<and> store_writes (snd (process_record undeletable_env sample_record
        (start_world None Map.empty))) =
       [Call_update_processed_record ''hdl:1765/1163'' ''-'' ''Failure'' ''Permission denied'',
        Call_update_high_watermark 1076940655]"
  by (simp add: model_defs sample_defs store_writes_def)





section \<open>The decoration of failed messages\<close>

lemma map_of_dict_setitem_same [simp]: "map_of (dict_setitem k v items) k = Some v"
  by (induction items) auto

lemma map_of_dict_setitem_other [simp]:
  "k' \<noteq> k \<Longrightarrow> map_of (dict_setitem k v items) k' = map_of items k'"
  by (induction items) auto

lemma dict_setitem_twice [simp]:
  "dict_setitem k v (dict_setitem k u items) = dict_setitem k v items"
  by (induction items) auto

text \<open>The header of a decorated message: the old header, if any, with the two fields set.\<close>

lemma set_error_header_object:
  assumes "map_of items ''messageHeader'' = None \<and> h = [] \<or>
           map_of items ''messageHeader'' = Some (JObj h)"
  shows "set_error_header env (JObj items) code reason =
           Inr (JObj (dict_setitem ''messageHeader''
                  (JObj (dict_setitem ''errorMessage'' (JStr (json_dumps env (JStr reason)))
                     (dict_setitem ''errorCode'' (JStr code) h))) items))"
  using assms
  by (auto simp: set_error_header_def py_contains_def py_setitem_def py_getitem_def
        py_setitem2_def)

text \<open>
  C4 (amended). When the raw message parses as a JSON object whose \<^verbatim>\<open>messageHeader\<close> is
  absent or an object, the decoration returns the text of that object with the field
  \<^verbatim>\<open>errorCode\<close> of the header set to the error code and the field \<^verbatim>\<open>errorMessage\<close> set to
  \<^verbatim>\<open>json.dumps\<close> of the reason, that is the JSON encoding of the text of the exception
  (between double quotes, escaped), not the text itself. When the raw message cannot be
  parsed, or is absent, a warning is logged and the message is returned as it was. In both
  cases the \<^verbatim>\<open>except\<close> block hands what the decoration returned to the error channel.
\<close>

theorem decorated_message_carries_code_and_encoded_reason:
  "(\<forall>message items h code reason w.
      loads env message = Inr (JObj items) \<and>
      (map_of items ''messageHeader'' = None \<or> map_of items ''messageHeader'' = Some (JObj h))
      \<longrightarrow>
      (\<exists>decorated header.
         decorate_message_with_error env message code reason w =
           (Inr (Some (json_dumps env decorated)), w) \<and>
         set_error_header env (JObj items) code reason = Inr decorated \<and>
         py_getitem decorated ''messageHeader'' = Inr header \<and>
         py_getitem header ''errorCode'' = Inr (JStr code) \<and>
         py_getitem header ''errorMessage'' = Inr (JStr (json_dumps env (JStr reason)))))
   \<and> (\<forall>message code reason w e.
      loads env message = Inl e \<longrightarrow>
      decorate_message_with_error env message code reason w =
        (Inr message, emit (Warn_decorate message code reason) w))
   \<and> (\<forall>f w message w2.
      decorate_message_with_error env (failed_message f) (error_code_of f)
        (exc_text (failed_exc f)) (emit (Log_record_error (header_identifier record)) w) =
        (Inr message, w2) \<longrightarrow>
      trace (snd (handle_failure env record f w)) =
        trace w2 @ [Call_put_invalid_message_on_queue message])"
proof (intro conjI allI impI)
  fix message items h code reason w
  assume a: "loads env message = Inr (JObj items) \<and>
      (map_of items ''messageHeader'' = None \<or> map_of items ''messageHeader'' = Some (JObj h))"
  define h0 where "h0 = (if map_of items ''messageHeader'' = None then [] else h)"
  define header where "header =
     dict_setitem ''errorMessage'' (JStr (json_dumps env (JStr reason)))
       (dict_setitem ''errorCode'' (JStr code) h0)"
  have cond: "map_of items ''messageHeader'' = None \<and> h0 = [] \<or>
      map_of items ''messageHeader'' = Some (JObj h0)"
    using a by (auto simp: h0_def)
  have set: "set_error_header env (JObj items) code reason =
      Inr (JObj (dict_setitem ''messageHeader'' (JObj header) items))"
    unfolding header_def by (rule set_error_header_object [OF cond])
  have "decorate_message_with_error env message code reason w =
      (Inr (Some (json_dumps env (JObj (dict_setitem ''messageHeader'' (JObj header) items)))), w)"
    using a set by (simp add: decorate_message_with_error_def)
  moreover have "py_getitem (JObj (dict_setitem ''messageHeader'' (JObj header) items))
      ''messageHeader'' = Inr (JObj header)"
    by (simp add: py_getitem_def)
  moreover have "py_getitem (JObj header) ''errorCode'' = Inr (JStr code)"
    by (simp add: py_getitem_def header_def)
  moreover have "py_getitem (JObj header) ''errorMessage'' =
      Inr (JStr (json_dumps env (JStr reason)))"
    by (simp add: py_getitem_def header_def)
  ultimately show "\<exists>decorated header.
         decorate_message_with_error env message code reason w =
           (Inr (Some (json_dumps env decorated)), w) \<and>
         set_error_header env (JObj items) code reason = Inr decorated \<and>
         py_getitem decorated ''messageHeader'' = Inr header \<and>
         py_getitem header ''errorCode'' = Inr (JStr code) \<and>
         py_getitem header ''errorMessage'' = Inr (JStr (json_dumps env (JStr reason)))"
    using set by blast
next
  fix message code reason w e
  assume "loads env message = Inl e"
  then show "decorate_message_with_error env message code reason w =
        (Inr message, emit (Warn_decorate message code reason) w)"
    by (simp add: decorate_message_with_error_def)
next
  fix f w message w2
  assume "decorate_message_with_error env (failed_message f) (error_code_of f)
        (exc_text (failed_exc f)) (emit (Log_record_error (header_identifier record)) w) =
        (Inr message, w2)"
  then show "trace (snd (handle_failure env record f w)) =
        trace w2 @ [Call_put_invalid_message_on_queue message]"
    by (simp add: handle_failure_def Let_def put_invalid_message_on_queue_def
          split: option.splits)
qed

theorem decorated_message_carries_code_and_encoded_reason_witness:
  "set_error_header rejecting_env (JObj []) ''GENERR001'' ''boom'' =
     Inr (JObj [(''messageHeader'',
            JObj [(''errorCode'', JStr ''GENERR001''),
                  (''errorMessage'', JStr (CHR 0x22 # ''boom'' @ [CHR 0x22]))])])
   \<and> decorate_message_with_error rejecting_env (Some ''{bad'') ''GENERR007'' ''boom''
        (start_world None Map.empty) =
       (Inr (Some ''{bad''),
        emit (Warn_decorate (Some ''{bad'') ''GENERR007'' ''boom'') (start_world None Map.empty))
   \<and> decorate_message_with_error rejecting_env None ''GENERR009'' ''boom''
        (start_world None Map.empty) =
       (Inr None,
        emit (Warn_decorate None ''GENERR009'' ''boom'') (start_world None Map.empty))"
  using decorated_message_carries_code_and_encoded_reason [of rejecting_env sample_record]
  by (simp add: model_defs sample_defs)

text \<open>
  The claim C4 as stated fails: the validator rejects the message \<^verbatim>\<open>{}\<close> with the text
  \<^verbatim>\<open>boom\<close>; the field \<^verbatim>\<open>errorMessage\<close> of the message put on the error channel holds the
  six characters \<^verbatim>\<open>"boom"\<close>, quotes included, which is not the text of the exception. A
  message that parses as structured data but not as an object, such as \<^verbatim>\<open>[]\<close>, is not
  decorated at all: the decoration raises a \<^verbatim>\<open>TypeError\<close>.
\<close>

theorem reason_field_is_not_the_exception_text:
  "fst (process_gates rejecting_env sample_record (start_world None Map.empty)) =
     Inl \<lparr>failed_message = Some ''{}'', failed_err_code = Some ''GENERR001'',
          failed_exc = Exc ValueError ''boom''\<rparr>
   \<and> loads rejecting_env (Some ''{}'') = Inr (JObj [])
   \<and> set_error_header rejecting_env (JObj []) ''GENERR001'' ''boom'' =
       Inr (JObj [(''messageHeader'',
              JObj [(''errorCode'', JStr ''GENERR001''),
                    (''errorMessage'', JStr (CHR 0x22 # ''boom'' @ [CHR 0x22]))])])
   \<and> JStr (CHR 0x22 # ''boom'' @ [CHR 0x22]) \<noteq> JStr ''boom''
   \<and> filter is_invalid_put
        (trace (snd (process_record rejecting_env sample_record (start_world None Map.empty)))) =
       [Call_put_invalid_message_on_queue
          (Some (json_dumps rejecting_env
             (JObj [(''messageHeader'',
                JObj [(''errorCode'', JStr ''GENERR001''),
                      (''errorMessage'', JStr (CHR 0x22 # ''boom'' @ [CHR 0x22]))])])))]
   \<and> loads sample_env (Some ''[]'') = Inr (JArr [])
   \<and> fst (decorate_message_with_error sample_env (Some ''[]'') ''GENERR001'' ''boom''
        (start_world None Map.empty)) =
       Inl (Exc TypeError ''list indices must be integers or slices, not str'')"
  by (simp add: model_defs sample_defs)

section \<open>The run\<close>

lemma gate_event_quiet: "gate_event ev \<Longrightarrow> quiet ev"
  by (cases ev) (simp_all add: quiet_def)

lemma records_processed_emit:
  "records_processed (emit ev w) = records_processed w + (if is_processing ev then 1 else 0)"
  by (simp add: records_processed_def)

lemma shutdowns_emit:
  "shutdowns (emit ev w) = shutdowns w + (if is_shutdown ev then 1 else 0)"
  by (simp add: shutdowns_def)

lemma appends_quiet_counts:
  assumes "appends quiet w w1"
  shows "records_processed w1 = records_processed w" and "shutdowns w1 = shutdowns w"
  using appends_filter [OF assms, of is_processing] appends_filter [OF assms, of is_shutdown]
  by (simp_all add: records_processed_def shutdowns_def quiet_def)

lemma extends_quiet: "extends gate_event w w1 \<Longrightarrow> appends quiet w w1"
proof -
  assume "extends gate_event w w1"
  then have "appends gate_event w w1"
    by (rule extends_appends)
  then show ?thesis
    by (rule appends_mono) (rule gate_event_quiet)
qed

lemma update_processed_record_quiet:
  "appends quiet w (snd (update_processed_record env ident message status reason w))"
  by (auto simp: update_processed_record_def Let_def appends_def quiet_def split: option.splits)

lemma update_high_watermark_quiet:
  "appends quiet w (snd (update_high_watermark env ts w))"
  by (auto simp: update_high_watermark_def Let_def appends_def quiet_def split: option.splits)

lemma record_outcome_quiet:
  "appends quiet w (snd (record_outcome env record message status reason w))"
proof -
  obtain r w1 where u: "update_processed_record env (header_identifier record)
      (message_or_placeholder message) status reason w = (r, w1)"
    by (cases "update_processed_record env (header_identifier record)
      (message_or_placeholder message) status reason w")
  have first: "appends quiet w w1"
    using update_processed_record_quiet [of w env "header_identifier record"
      "message_or_placeholder message" status reason] u by simp
  have "appends quiet w (snd (update_high_watermark env (header_datestamp record) w1))"
    using first update_high_watermark_quiet by (rule appends_trans)
  with u first show ?thesis
    by (cases r) (simp_all add: record_outcome_def)
qed

lemma process_record_quiet:
  "appends quiet (emit (Log_processing (header_identifier record)) w)
     (snd (process_record env record w))"
proof (cases rule: process_record_cases [of env "record" w])
  case (published message w1)
  have "appends quiet (emit (Log_processing (header_identifier record)) w) w1"
    using published(3) by (rule extends_quiet)
  then show ?thesis
    unfolding published(2) using record_outcome_quiet by (rule appends_trans)
next
  case (escaped f w1 e w2)
  then show ?thesis
    by (simp add: extends_quiet)
next
  case (failed f w1 message w2)
  have "appends quiet (emit (Log_processing (header_identifier record)) w) w2"
    using failed(4) by (rule extends_quiet)
  then show ?thesis
    unfolding failed(3) using record_outcome_quiet by (rule appends_trans)
qed

lemma process_record_counts:
  "records_processed (snd (process_record env record w)) = Suc (records_processed w)"
  "shutdowns (snd (process_record env record w)) = shutdowns w"
  using appends_quiet_counts [OF process_record_quiet [of "record" w env]]
  by (simp_all add: records_processed_emit shutdowns_emit)

lemma record_success_filter_counts:
  "records_processed (snd (record_success_filter w record)) = records_processed w"
  "shutdowns (snd (record_success_filter w record)) = shutdowns w"
  by (simp_all add: record_success_filter_def Let_def records_processed_emit shutdowns_emit)

lemma process_records_counts:
  "records_processed (snd (process_records env records n w)) \<le> records_processed w + n \<and>
   shutdowns (snd (process_records env records n w)) = shutdowns w"
proof (induction env records n w rule: process_records.induct)
  case (1 env records w)
  show ?case by simp
next
  case (2 env n w)
  show ?case by simp
next
  case (3 env r records n w)
  obtain keep w1 where f: "record_success_filter w r = (keep, w1)"
    by (cases "record_success_filter w r")
  have c1: "records_processed w1 = records_processed w" "shutdowns w1 = shutdowns w"
    using record_success_filter_counts [of w r] f by simp_all
  show ?case
  proof (cases keep)
    case False
    with f c1 "3.IH"(2) [OF f [symmetric]] show ?thesis by simp
  next
    case True
    let ?w2 = "emit (Log_processing_record (header_identifier r)) w1"
    obtain res w3 where p: "process_record env r ?w2 = (res, w3)"
      by (cases "process_record env r ?w2")
    have c3: "records_processed w3 = Suc (records_processed w)" "shutdowns w3 = shutdowns w"
      using process_record_counts [of env r ?w2] p c1
      by (simp_all add: records_processed_emit shutdowns_emit)
    show ?thesis
    proof (cases res)
      case None
      with f True p c3 "3.IH"(1) [OF f [symmetric] _ p [symmetric]] show ?thesis by simp
    next
      case (Some e)
      with f True p c3 show ?thesis by simp
    qed
  qed
qed

lemma shutdown_counts:
  "records_processed (snd (shutdown env w)) = records_processed w"
  "shutdowns (snd (shutdown env w)) = Suc (shutdowns w)"
  by (auto simp: shutdown_def Let_def put_message_on_queue_def records_processed_emit
        shutdowns_emit split: option.splits)

lemma shutdown_returns:
  "(\<And>w1. queue_put env w1 PoisonPill = None) \<Longrightarrow> (\<And>w1. validator_shutdown env w1 = None) \<Longrightarrow>
     fst (shutdown env w) = None"
  by (simp add: shutdown_def Let_def put_message_on_queue_def)

lemma update_high_watermark_counts:
  "records_processed (snd (update_high_watermark env ts w)) = records_processed w"
  "shutdowns (snd (update_high_watermark env ts w)) = shutdowns w"
  using appends_quiet_counts [OF update_high_watermark_quiet [of w env ts]] by simp_all

lemma initialise_clients_trace: "trace (snd (initialise_clients env cs w)) = trace w"
  by (induction cs arbitrary: w) (auto split: option.splits)

lemma initialise_clients_counts:
  "records_processed (snd (initialise_clients env cs w)) = records_processed w"
  "shutdowns (snd (initialise_clients env cs w)) = shutdowns w"
  by (simp_all add: records_processed_def shutdowns_def initialise_clients_trace)

lemma parse_env_vars_counts:
  "records_processed (snd (parse_env_vars os_environ names w)) = records_processed w"
  "shutdowns (snd (parse_env_vars os_environ names w)) = shutdowns w"
  by (simp_all add: parse_env_vars_def Let_def records_processed_emit shutdowns_emit)

text \<open>The part of \<^verbatim>\<open>main\<close> after the clients are made: at most the flow limit of
  records, and one shutdown exactly when no exception escapes before it.\<close>

lemma harvest_counts:
  "records_processed (snd (harvest env settings w)) \<le>
     records_processed w +
       (case map_of settings ''EPRINTS_FLOW_LIMIT'' of
          Some (Some text) \<Rightarrow> (case py_int env text of Inl e \<Rightarrow> 0 | Inr n \<Rightarrow> nat n)
        | _ \<Rightarrow> 0)"
  "shutdowns (snd (harvest env settings w)) \<le> Suc (shutdowns w)"
  "fst (harvest env settings w) = None \<Longrightarrow> shutdowns (snd (harvest env settings w)) = Suc (shutdowns w)"
  "(\<And>w1. queue_put env w1 PoisonPill = None) \<Longrightarrow> (\<And>w1. validator_shutdown env w1 = None) \<Longrightarrow>
     fst (harvest env settings w) \<noteq> None \<Longrightarrow> shutdowns (snd (harvest env settings w)) = shutdowns w"
proof -
  obtain r0 w1 where boot: "(case fetch_high_watermark w of
              None \<Rightarrow> (case update_high_watermark env (now env) w of
                         (Some e, w1) \<Rightarrow> (Inl e, w1)
                       | (None, w1) \<Rightarrow> (Inr (now env), w1))
            | Some ts \<Rightarrow> (Inr ts, w)) = (r0, w1)"
    by (cases "(case fetch_high_watermark w of
              None \<Rightarrow> (case update_high_watermark env (now env) w of
                         (Some e, w1) \<Rightarrow> (Inl e, w1)
                       | (None, w1) \<Rightarrow> (Inr (now env), w1))
            | Some ts \<Rightarrow> (Inr ts, w))")
  have c1: "records_processed w1 = records_processed w" "shutdowns w1 = shutdowns w"
    using boot update_high_watermark_counts [of env "now env" w]
    by (auto split: option.splits prod.splits)
  have loop: "records_processed (snd (process_records env rs n w1)) \<le> records_processed w + n"
    "shutdowns (snd (process_records env rs n w1)) = shutdowns w" for rs n
    using process_records_counts [of env rs n w1] c1 by simp_all
  have loop': "records_processed w2 \<le> records_processed w + n" "shutdowns w2 = shutdowns w"
    if "process_records env rs n w1 = (x, w2)" for rs n x w2
    using loop [of rs n] that by simp_all
  have sd: "records_processed (snd (shutdown env w2)) \<le> records_processed w + n"
    "shutdowns (snd (shutdown env w2)) = Suc (shutdowns w)"
    if "process_records env rs n w1 = (x, w2)" for rs n x w2
    using loop' [OF that] shutdown_counts [of env w2] by simp_all
  show "records_processed (snd (harvest env settings w)) \<le>
     records_processed w +
       (case map_of settings ''EPRINTS_FLOW_LIMIT'' of
          Some (Some text) \<Rightarrow> (case py_int env text of Inl e \<Rightarrow> 0 | Inr n \<Rightarrow> nat n)
        | _ \<Rightarrow> 0)"
    using boot c1
    by (auto simp: harvest_def Let_def split: sum.splits option.splits prod.splits
          dest: loop'(1) sd(1))
  show "shutdowns (snd (harvest env settings w)) \<le> Suc (shutdowns w)"
    using boot c1
    by (auto simp: harvest_def Let_def split: sum.splits option.splits prod.splits
          dest: loop'(2) sd(2))
  show "shutdowns (snd (harvest env settings w)) = Suc (shutdowns w)"
    if "fst (harvest env settings w) = None"
    using boot c1 that
    by (auto simp: harvest_def Let_def split: sum.splits option.splits prod.splits if_splits
          dest: sd(2))
  show "shutdowns (snd (harvest env settings w)) = shutdowns w"
    if "\<And>w1. queue_put env w1 PoisonPill = None" "\<And>w1. validator_shutdown env w1 = None"
      "fst (harvest env settings w) \<noteq> None"
    using boot c1 that(3) shutdown_returns [OF that(1) that(2)]
    by (auto simp: harvest_def Let_def split: sum.splits option.splits prod.splits if_splits
          dest: loop'(2))
qed


lemma get_settings_cases:
  "get_settings os_environ w =
     (if list_all is_set (map os_environ setting_names)
      then (Inr (map (\<lambda>name. (name, os_environ name)) setting_names), w)
      else (Inl 1, emit (Log_missing_settings
              (map fst (filter (\<lambda>(name, exists). \<not> is_set exists)
                 (map (\<lambda>name. (name, os_environ name)) setting_names)))) w))"
  by (simp add: get_settings_def parse_env_vars_def Let_def comp_def)

lemma flow_limit_setting:
  "map_of (map (\<lambda>name. (name, os_environ name)) setting_names) ''EPRINTS_FLOW_LIMIT'' =
     Some (os_environ ''EPRINTS_FLOW_LIMIT'')"
  by (simp add: setting_names_def)

lemma flow_limit_is_set:
  "list_all is_set (map os_environ setting_names) \<Longrightarrow>
     \<exists>text. os_environ ''EPRINTS_FLOW_LIMIT'' = Some text"
  by (cases "os_environ ''EPRINTS_FLOW_LIMIT''") (simp_all add: setting_names_def is_set_def)

lemma main_records:
  "records_processed (snd (main env os_environ w)) \<le>
     records_processed w +
       (case configured_flow_limit env os_environ of None \<Rightarrow> 0 | Some n \<Rightarrow> nat n)"
proof (cases "list_all is_set (map os_environ setting_names)")
  case False
  then show ?thesis
    by (simp add: main_def get_settings_cases records_processed_emit)
next
  case True
  let ?settings = "map (\<lambda>name. (name, os_environ name)) setting_names"
  obtain lim where lim: "os_environ ''EPRINTS_FLOW_LIMIT'' = Some lim"
    using flow_limit_is_set [OF True] by blast
  obtain r w2 where init: "initialise_clients env client_order w = (r, w2)"
    by (cases "initialise_clients env client_order w")
  have c2: "records_processed w2 = records_processed w"
    using initialise_clients_counts(1) [of env client_order w] init by simp
  have bound: "records_processed (snd (harvest env ?settings w2)) \<le>
      records_processed w + (case py_int env lim of Inl e \<Rightarrow> 0 | Inr n \<Rightarrow> nat n)"
    using harvest_counts(1) [of env ?settings w2] c2
    by (simp add: flow_limit_setting lim)
  have conf: "(case configured_flow_limit env os_environ of None \<Rightarrow> 0 | Some n \<Rightarrow> nat n) =
      (case py_int env lim of Inl e \<Rightarrow> 0 | Inr n \<Rightarrow> nat n)"
    by (simp add: configured_flow_limit_def lim split: sum.splits)
  show ?thesis
    using True init c2 bound
    by (auto simp: main_def get_settings_cases conf split: option.splits prod.splits)
qed

lemma run_records:
  "records_processed (snd (run env os_environ w)) \<le>
     records_processed w +
       (case configured_flow_limit env os_environ of None \<Rightarrow> 0 | Some n \<Rightarrow> nat n)"
proof -
  obtain r w1 where m: "main env os_environ w = (r, w1)"
    by (cases "main env os_environ w")
  have "records_processed (snd (shutdown env (emit Log_unhandled w1))) = records_processed w1"
    by (simp add: shutdown_counts records_processed_emit)
  then show ?thesis
    using main_records [of env os_environ w] m
    by (auto simp: run_def split: ending.splits prod.splits option.splits)
qed

text \<open>
  C5 (amended). In every run, whatever the source yields and whatever the collaborators
  do, the number of records handed to \<^verbatim>\<open>_process_record\<close> is at most the configured flow
  limit when that integer is not negative, and zero when it is negative (or when the
  setting is missing or is not an integer): the bound is the larger of zero and the flow
  limit.
\<close>

theorem at_most_flow_limit_records:
  "records_processed (snd (run env os_environ w)) \<le>
     records_processed w +
       (case configured_flow_limit env os_environ of None \<Rightarrow> 0 | Some n \<Rightarrow> nat n)
   \<and> (\<forall>n. configured_flow_limit env os_environ = Some n \<and> 0 \<le> n \<longrightarrow>
         int (records_processed (snd (run env os_environ w))) \<le> int (records_processed w) + n)
   \<and> (\<forall>n. configured_flow_limit env os_environ = Some n \<and> n < 0 \<longrightarrow>
         records_processed (snd (run env os_environ w)) \<le> records_processed w)"
  using run_records [of env os_environ w] by auto

theorem at_most_flow_limit_records_witness:
  "configured_flow_limit two_records_env limit_one_environ = Some 1
   \<and> records_processed (snd (run two_records_env limit_one_environ
        (start_world None Map.empty))) = 1
   \<and> records_processed (snd (run two_records_env sample_environ
        (start_world None Map.empty))) = 2"
  using at_most_flow_limit_records [of two_records_env limit_one_environ
          "start_world None Map.empty"]
  by (simp add: model_defs sample_defs records_processed_def configured_flow_limit_def
        numeral_2_eq_2)

text \<open>
  The claim C5 as stated fails for a negative flow limit: with the setting \<^verbatim>\<open>-1\<close>,
  \<^verbatim>\<open>itertools.islice\<close> raises a \<^verbatim>\<open>ValueError\<close>, no record is processed, and zero is not at
  most the configured integer.
\<close>

theorem negative_flow_limit_is_exceeded:
  "configured_flow_limit sample_env negative_environ = Some (- 1)
   \<and> records_processed (snd (run sample_env negative_environ
        (start_world None Map.empty))) = 0
   \<and> \<not> int (records_processed (snd (run sample_env negative_environ
        (start_world None Map.empty)))) \<le> - 1"
  by (simp add: model_defs sample_defs records_processed_def configured_flow_limit_def)

section \<open>The shutdown\<close>






end
